theory Spec2Isabelle
  imports Complex_Main
begin

section \<open>Values, arrays and errors\<close>

text \<open>
  The development embeds \<^verbatim>\<open>mlstatpy/ml/neural_tree.py\<close>. A 64-bit float is read as
  a real number (rounding is not part of the model), a Python integer as an \<open>int\<close>,
  a numpy array as its shape together with its elements in row-major order. Every
  exception the source can raise is a value of \<open>error\<close>.
\<close>

datatype error =
    UnknownActivation          \<comment> \<open>ValueError "Unknown activation function"\<close>
  | UnknownActivationGradient  \<comment> \<open>ValueError "Unknown activation gradient function"\<close>
  | NotOneDimension            \<comment> \<open>ValueError "X must a vector of one dimension"\<close>
  | UnsqueezedWeights          \<comment> \<open>RuntimeError "Unexpected unsqueezed weights shape"\<close>
  | UnexpectedWeightsShape     \<comment> \<open>RuntimeError "Unexpected weights shape"\<close>
  | DimensionMismatch          \<comment> \<open>RuntimeError "Dimension mismatch between weights and inputs"\<close>
  | BadCoefRank                \<comment> \<open>RuntimeError "Coefficients should have 1 or 2 dimension"\<close>
  | MultipleOutputUnits        \<comment> \<open>RuntimeError "Only one output node is implemented"\<close>
  | NotBinary                  \<comment> \<open>RuntimeError "The function only support binary classification problem."\<close>
  | NotImplementedError
  | KeyError
  | IndexError
  | TypeError
  | NumpyValueError            \<comment> \<open>ValueError raised inside numpy: shapes that do not match or
                                   broadcast, the truth value of an array, an empty reduction\<close>

datatype ndarray = NDArray (shape: "nat list") (data: "real list")

definition size_nd :: "ndarray \<Rightarrow> nat" where
  "size_nd a = prod_list (shape a)"

definition ravel :: "ndarray \<Rightarrow> real list" where
  "ravel a = data a"



text \<open>
  Where an index lands in a sequence of \<open>len\<close> elements: Python counts a negative index
  from the end, and an index outside \<open>-len .. len - 1\<close> is an IndexError.
\<close>

definition wrap_index :: "nat \<Rightarrow> int \<Rightarrow> nat option" where
  "wrap_index len i =
     (if 0 \<le> i \<and> i < int len then Some (nat i)
      else if - int len \<le> i \<and> i < 0 then Some (nat (i + int len))
      else None)"

definition py_get :: "'a list \<Rightarrow> int \<Rightarrow> error + 'a" where
  "py_get xs i = (case wrap_index (length xs) i of None \<Rightarrow> Inl IndexError | Some j \<Rightarrow> Inr (xs ! j))"

text \<open>\<^verbatim>\<open>xs[i] = v\<close> on a one-dimensional array.\<close>

definition py_set :: "'a list \<Rightarrow> int \<Rightarrow> 'a \<Rightarrow> error + 'a list" where
  "py_set xs i v = (case wrap_index (length xs) i of None \<Rightarrow> Inl IndexError | Some j \<Rightarrow> Inr (xs[j := v]))"

text \<open>\<^verbatim>\<open>xs[idx]\<close> with an integer index array \<open>idx\<close>: every index is checked.\<close>

fun take_idx :: "'a list \<Rightarrow> int list \<Rightarrow> error + 'a list" where
  "take_idx xs [] = Inr []"
| "take_idx xs (i # is) =
     (case py_get xs i of Inl e \<Rightarrow> Inl e
      | Inr v \<Rightarrow> (case take_idx xs is of Inl e \<Rightarrow> Inl e | Inr vs \<Rightarrow> Inr (v # vs)))"

section \<open>Activation catalog\<close>

text \<open>\<^verbatim>\<open>scipy.special.expit\<close> and \<^verbatim>\<open>scipy.special.softmax\<close> (of a one-dimensional
  array) by their mathematical definitions; the softmax of an empty array is an empty
  reduction and raises.\<close>

definition expit :: "real \<Rightarrow> real" where
  "expit x = 1 / (1 + exp (- x))"

definition scipy_softmax :: "real list \<Rightarrow> error + real list" where
  "scipy_softmax xs =
     (if xs = [] then Inl NumpyValueError
      else Inr (map (\<lambda>x. exp x / sum_list (map exp xs)) xs))"

text \<open>
  A Python number is an \<^verbatim>\<open>int\<close> or a \<^verbatim>\<open>float\<close>. \<^verbatim>\<open>numpy.vectorize\<close> takes the type
  of its output array from the result at the first element and casts every other result
  to it; with no element there is no first result and it raises.
\<close>

datatype pynum = PyInt int | PyFloat real

fun to_real :: "pynum \<Rightarrow> real" where
  "to_real (PyInt i) = of_int i"
| "to_real (PyFloat r) = r"

fun to_int :: "pynum \<Rightarrow> int" where
  "to_int (PyInt i) = i"
| "to_int (PyFloat r) = (if 0 \<le> r then \<lfloor>r\<rfloor> else \<lceil>r\<rceil>)"

definition vectorize :: "(real \<Rightarrow> pynum) \<Rightarrow> real list \<Rightarrow> error + real list" where
  "vectorize f xs =
     (case xs of
        [] \<Rightarrow> Inl NumpyValueError
      | x # _ \<Rightarrow>
          (case f x of
             PyInt _ \<Rightarrow> Inr (map (\<lambda>v. of_int (to_int (f v))) xs)
           | PyFloat _ \<Rightarrow> Inr (map (\<lambda>v. to_real (f v)) xs)))"

definition relu :: "real \<Rightarrow> pynum" where
  "relu x = (if x > 0 then PyFloat x else PyInt 0)"

definition leakyrelu :: "real \<Rightarrow> pynum" where
  "leakyrelu x = (if x > 0 then PyFloat x else PyFloat (x * (1 / 100)))"

definition drelu :: "real \<Rightarrow> pynum" where
  "drelu x = (if x > 0 then PyInt 1 else PyInt 0)"

definition dleakyrelu :: "real \<Rightarrow> pynum" where
  "dleakyrelu x = (if x > 0 then PyInt 1 else PyFloat (1 / 100))"

text \<open>\<^verbatim>\<open>_dsigmoid\<close>: \<^verbatim>\<open>y = expit(x); return y * (1 - y)\<close>.\<close>

definition dsigmoid :: "real \<Rightarrow> real" where
  "dsigmoid x = (let y = expit x in y * (1 - y))"

text \<open>\<^verbatim>\<open>_softmax\<close> of a one-dimensional array is \<^verbatim>\<open>softmax(x)\<close>.\<close>

definition softmax :: "real list \<Rightarrow> error + real list" where
  "softmax x = scipy_softmax x"

text \<open>
  \<^verbatim>\<open>_dsoftmax\<close> of a one-dimensional array of length \<open>n\<close>: \<^verbatim>\<open>soft @ soft.T\<close> is the
  inner product of \<open>soft\<close> with itself, a scalar; \<^verbatim>\<open>numpy.diag(soft)\<close> is the
  \<open>n\<close> by \<open>n\<close> diagonal matrix; their sum adds the scalar to every entry.
\<close>

definition dsoftmax :: "real list \<Rightarrow> error + ndarray" where
  "dsoftmax x =
     (case scipy_softmax x of
        Inl e \<Rightarrow> Inl e
      | Inr soft \<Rightarrow>
          (let n = length soft;
               grad = - sum_list (map (\<lambda>s. s * s) soft)
           in Inr (NDArray [n, n]
                (concat (map (\<lambda>i. map (\<lambda>j. (if i = j then soft ! i else 0) + grad) [0..<n])
                             [0..<n])))))"

definition scale_nd :: "real \<Rightarrow> ndarray \<Rightarrow> ndarray" where
  "scale_nd c a = NDArray (shape a) (map (\<lambda>v. v * c) (data a))"

definition vec :: "real list \<Rightarrow> ndarray" where
  "vec xs = NDArray [length xs] xs"

text \<open>The forward table: a function from the pre-activation vector to the output vector.\<close>

definition get_activation_function :: "string \<Rightarrow> error + (real list \<Rightarrow> error + real list)" where
  "get_activation_function activation =
     (if activation = ''softmax'' then Inr softmax
      else if activation = ''softmax4'' then Inr (\<lambda>x. softmax (map (\<lambda>v. v * 4) x))
      else if activation \<in> {''logistic'', ''expit'', ''sigmoid''} then Inr (\<lambda>x. Inr (map expit x))
      else if activation = ''sigmoid4'' then Inr (\<lambda>x. Inr (map (\<lambda>v. expit (v * 4)) x))
      else if activation = ''relu'' then Inr (vectorize relu)
      else if activation = ''leakyrelu'' then Inr (vectorize leakyrelu)
      else if activation = ''identity'' then Inr (\<lambda>x. Inr x)
      else Inl UnknownActivation)"

text \<open>The gradient table: elementwise derivatives as a vector, the softmax ones as a matrix.\<close>

definition get_activation_gradient_function :: "string \<Rightarrow> error + (real list \<Rightarrow> error + ndarray)" where
  "get_activation_gradient_function activation =
     (if activation = ''softmax'' then Inr dsoftmax
      else if activation = ''softmax4'' then Inr (\<lambda>x. map_sum id (scale_nd 4) (dsoftmax x))
      else if activation \<in> {''logistic'', ''expit'', ''sigmoid''} then Inr (\<lambda>x. Inr (vec (map dsigmoid x)))
      else if activation = ''sigmoid4'' then Inr (\<lambda>x. Inr (vec (map (\<lambda>v. dsigmoid v * 4) x)))
      else if activation = ''relu'' then Inr (\<lambda>x. map_sum id vec (vectorize drelu x))
      else if activation = ''leakyrelu'' then Inr (\<lambda>x. map_sum id vec (vectorize dleakyrelu x))
      else if activation = ''identity'' then Inr (\<lambda>x. map_sum id vec (vectorize (\<lambda>_. PyInt 1) x))
      else Inl UnknownActivationGradient)"

text \<open>
  The default loss and its derivatives are looked up by the same names. No property below
  depends on a loss value, so the tables return which of the three losses was chosen:
  squared error with the weight penalty, the relative entropy, plain squared error.
\<close>

datatype loss_kind = RegressionL2 | Classification | Regression

definition get_activation_loss_function :: "string \<Rightarrow> error + loss_kind" where
  "get_activation_loss_function activation =
     (if activation \<in> {''logistic'', ''expit'', ''sigmoid'', ''sigmoid4''} then Inr RegressionL2
      else if activation \<in> {''softmax'', ''softmax4''} then Inr Classification
      else if activation \<in> {''identity'', ''relu'', ''leakyrelu''} then Inr Regression
      else Inl UnknownActivation)"

definition get_activation_dloss_function :: "string \<Rightarrow> error + loss_kind" where
  "get_activation_dloss_function activation =
     (if activation \<in> {''logistic'', ''expit'', ''sigmoid'', ''sigmoid4''} then Inr RegressionL2
      else if activation \<in> {''softmax'', ''softmax4''} then Inr Classification
      else if activation \<in> {''identity'', ''relu'', ''leakyrelu''} then Inr Regression
      else Inl UnknownActivation)"

text \<open>The names the tables know.\<close>

definition activation_kinds :: "string set" where
  "activation_kinds = {''softmax'', ''softmax4'', ''logistic'', ''expit'', ''sigmoid'',
                       ''sigmoid4'', ''relu'', ''leakyrelu'', ''identity''}"

section \<open>Computational unit\<close>

record NeuralTreeNode =
  coef :: ndarray
  activation :: string
  nodeid :: int
  n_outputs :: nat
  tag :: "string option"

text \<open>
  The bias handed to the constructor is a scalar or a vector. (When the caller omits it
  the constructor draws it at random; the draw is the caller's here.) \<open>fill_bias n b\<close>
  is what numpy writes into \<open>n\<close> bias cells.
\<close>

datatype bias_arg = BScalar real | BVector "real list"

definition fill_bias :: "nat \<Rightarrow> bias_arg \<Rightarrow> error + real list" where
  "fill_bias n b =
     (case b of
        BScalar v \<Rightarrow> Inr (replicate n v)
      | BVector vs \<Rightarrow>
          (if length vs = n then Inr vs
           else if length vs = 1 then Inr (replicate n (hd vs))
           else Inl NumpyValueError))"

definition set_fcts :: "NeuralTreeNode \<Rightarrow> error + NeuralTreeNode" where
  "set_fcts self =
     (case get_activation_function (activation self) of Inl e \<Rightarrow> Inl e | Inr _ \<Rightarrow>
      (case get_activation_gradient_function (activation self) of Inl e \<Rightarrow> Inl e | Inr _ \<Rightarrow>
       (case get_activation_loss_function (activation self) of Inl e \<Rightarrow> Inl e | Inr _ \<Rightarrow>
        (case get_activation_dloss_function (activation self) of Inl e \<Rightarrow> Inl e | Inr _ \<Rightarrow>
           Inr self))))"

text \<open>
  \<^verbatim>\<open>NeuralTreeNode(weights, bias, activation, nodeid, tag)\<close> for weights given as an
  array. One-dimensional weights give \<^verbatim>\<open>coef = [bias, w...]\<close>; a two-dimensional block
  gives one row \<^verbatim>\<open>[bias_i, w_i...]\<close> per output.
\<close>

definition rows_of :: "nat \<Rightarrow> nat \<Rightarrow> real list \<Rightarrow> real list list" where
  "rows_of r c xs = map (\<lambda>i. take c (drop (i * c) xs)) [0..<r]"

definition NeuralTreeNode_init ::
  "ndarray \<Rightarrow> bias_arg \<Rightarrow> string \<Rightarrow> int \<Rightarrow> string option \<Rightarrow> error + NeuralTreeNode" where
  "NeuralTreeNode_init weights bias act nid tg =
     (if length (shape weights) = 1 then
        (case fill_bias 1 bias of
           Inl e \<Rightarrow> Inl e
         | Inr b \<Rightarrow>
             set_fcts \<lparr>coef = NDArray [length (data weights) + 1] (b @ data weights),
                       activation = act, nodeid = nid, n_outputs = 1, tag = tg\<rparr>)
      else if length (shape weights) = 2 then
        (let r = shape weights ! 0; c = shape weights ! 1 in
         if r = 1 then Inl UnsqueezedWeights
         else
           (case fill_bias r bias of
              Inl e \<Rightarrow> Inl e
            | Inr b \<Rightarrow>
                set_fcts \<lparr>coef = NDArray [r, c + 1]
                                   (concat (map (\<lambda>(bi, row). bi # row) (zip b (rows_of r c (data weights))))),
                          activation = act, nodeid = nid, n_outputs = r, tag = tg\<rparr>))
      else Inl UnexpectedWeightsShape)"

text \<open>
  \<^verbatim>\<open>a[1:]\<close> drops the first item along the first axis, \<^verbatim>\<open>a[:, 1:]\<close> the first item
  along the second axis; an array with too few axes raises IndexError.
\<close>

definition drop_first :: "ndarray \<Rightarrow> error + ndarray" where
  "drop_first a =
     (case shape a of
        [] \<Rightarrow> Inl IndexError
      | s0 # rest \<Rightarrow> Inr (NDArray ((s0 - 1) # rest) (drop (prod_list rest) (data a))))"

definition drop_first_column :: "ndarray \<Rightarrow> error + ndarray" where
  "drop_first_column a =
     (case shape a of
        s0 # s1 # rest \<Rightarrow>
          (let blk = prod_list rest in
           Inr (NDArray (s0 # (s1 - 1) # rest)
                  (concat (map (drop blk) (rows_of s0 (s1 * blk) (data a))))))
      | _ \<Rightarrow> Inl IndexError)"

definition input_weights :: "NeuralTreeNode \<Rightarrow> error + ndarray" where
  "input_weights self =
     (if n_outputs self = 1 then drop_first (coef self) else drop_first_column (coef self))"

text \<open>
  Iterating over an array yields its items along the first axis (scalars for a vector,
  rows for a matrix); a scalar array cannot be iterated.
\<close>

definition iter_nd :: "ndarray \<Rightarrow> error + real list list" where
  "iter_nd a =
     (case shape a of
        [] \<Rightarrow> Inl TypeError
      | s0 # rest \<Rightarrow> Inr (rows_of s0 (prod_list rest) (data a)))"

text \<open>
  The truth value Python asks of the result of \<^verbatim>\<open>!=\<close>: that of the only element when
  there is one, False (with a deprecation warning) for none, and a ValueError
  ("The truth value of an array with more than one element is ambiguous") otherwise.
\<close>

definition truth_value :: "bool list \<Rightarrow> error + bool" where
  "truth_value bs = (case bs of [] \<Rightarrow> Inr False | [b] \<Rightarrow> Inr b | _ \<Rightarrow> Inl NumpyValueError)"

text \<open>\<^verbatim>\<open>any(map(lambda xy: xy[0] != xy[1], zip(...)))\<close> stops at the first true item.\<close>

fun any_differs :: "(real list \<times> real list) list \<Rightarrow> error + bool" where
  "any_differs [] = Inr False"
| "any_differs ((a, b) # rest) =
     (case truth_value (map (\<lambda>(u, v). u \<noteq> v) (zip a b)) of
        Inl e \<Rightarrow> Inl e
      | Inr True \<Rightarrow> Inr True
      | Inr False \<Rightarrow> any_differs rest)"

text \<open>\<^verbatim>\<open>NeuralTreeNode.__eq__\<close>.\<close>

definition NeuralTreeNode_eq :: "NeuralTreeNode \<Rightarrow> NeuralTreeNode \<Rightarrow> error + bool" where
  "NeuralTreeNode_eq self obj =
     (if shape (coef self) \<noteq> shape (coef obj) then Inr False
      else
        (case iter_nd (coef self) of Inl e \<Rightarrow> Inl e | Inr xs \<Rightarrow>
         (case iter_nd (coef obj) of Inl e \<Rightarrow> Inl e | Inr ys \<Rightarrow>
          (case any_differs (zip xs ys) of
             Inl e \<Rightarrow> Inl e
           | Inr True \<Rightarrow> Inr False
           | Inr False \<Rightarrow> if activation self \<noteq> activation obj then Inr False else Inr True))))"

text \<open>\<^verbatim>\<open>training_weights\<close> and \<^verbatim>\<open>update_training_weights\<close> of one unit.\<close>

definition node_training_weights :: "NeuralTreeNode \<Rightarrow> real list" where
  "node_training_weights self = ravel (coef self)"


section \<open>The training interface\<close>

text \<open>
  \<^verbatim>\<open>_TrainingAPI\<close> declares the methods a trainable overrides and defines \<^verbatim>\<open>gradient\<close>
  from them. The methods \<^verbatim>\<open>gradient\<close> calls through \<^verbatim>\<open>self\<close> are the fields of a
  record; \<open>TrainingAPI_base\<close> holds the bodies the base class itself gives them.
\<close>

record 'c TrainingAPI =
  api_fill_cache :: "ndarray \<Rightarrow> error + 'c option"
  api_dlossds :: "ndarray \<Rightarrow> ndarray \<Rightarrow> 'c option \<Rightarrow> error + ndarray"
  api_dlossdw :: "ndarray \<Rightarrow> ndarray \<Rightarrow> 'c option \<Rightarrow> error + ndarray"
  api_gradient_backward ::
    "ndarray \<Rightarrow> ndarray \<Rightarrow> ndarray \<Rightarrow> bool \<Rightarrow> 'c option \<Rightarrow> error + ndarray"

definition TrainingAPI_base :: "unit TrainingAPI" where
  "TrainingAPI_base =
     \<lparr>api_fill_cache = (\<lambda>X. Inr None),
      api_dlossds = (\<lambda>X y cache. Inl NotImplementedError),
      api_dlossdw = (\<lambda>X y cache. Inl NotImplementedError),
      api_gradient_backward = (\<lambda>graddx graddw X inputs cache. Inl NotImplementedError)\<rparr>"

definition gradient :: "'c TrainingAPI \<Rightarrow> ndarray \<Rightarrow> ndarray \<Rightarrow> bool \<Rightarrow> error + ndarray" where
  "gradient self X y inputs =
     (if length (shape X) \<noteq> 1 then Inl NotOneDimension
      else
        (case api_fill_cache self X of Inl e \<Rightarrow> Inl e | Inr cache \<Rightarrow>
         (case api_dlossds self X y cache of Inl e \<Rightarrow> Inl e | Inr dlossds \<Rightarrow>
          (case api_dlossdw self X y cache of Inl e \<Rightarrow> Inl e | Inr dlossdw \<Rightarrow>
             api_gradient_backward self dlossds dlossdw X inputs cache))))"

section \<open>Computation graph\<close>

text \<open>
  Units are objects: a network holds references to them, and the same unit can be reached
  through several references. The store is the list of all units allocated so far, a
  reference is a position in it. Placement metadata is a dictionary the network creates
  at each append and never changes afterwards, so it is kept by value.
\<close>

type_synonym addr = nat
type_synonym heap = "NeuralTreeNode list"

definition alloc :: "heap \<Rightarrow> NeuralTreeNode \<Rightarrow> addr \<times> heap" where
  "alloc h n = (length h, h @ [n])"

datatype out = OutInt int | OutList "int list"

record attr =
  inputs :: "int list"
  output_slot :: out  \<comment> \<open>the entry \<^verbatim>\<open>'output'\<close>\<close>
  coef_size :: nat
  first_coef :: nat

record NeuralTreeNet =
  dim :: int
  nodes :: "addr list"
  nodes_attr :: "attr list"
  net_size :: int  \<comment> \<open>the member \<^verbatim>\<open>size_\<close>\<close>
  output_to_node :: "int \<rightharpoonup> addr \<times> attr"  \<comment> \<open>\<^verbatim>\<open>output_to_node_\<close>\<close>
  input_to_node :: "int \<rightharpoonup> addr \<times> attr"  \<comment> \<open>\<^verbatim>\<open>input_to_node_\<close>\<close>

definition outputs_of :: "out \<Rightarrow> int list" where
  "outputs_of ou = (case ou of OutList ss \<Rightarrow> ss | OutInt s \<Rightarrow> [s])"

text \<open>The two loops of \<^verbatim>\<open>_update_members\<close> that enter a unit into the lookup maps.\<close>

definition register :: "addr \<Rightarrow> attr \<Rightarrow> NeuralTreeNet \<Rightarrow> NeuralTreeNet" where
  "register a atr self =
     self\<lparr>output_to_node := fold (\<lambda>ou m. m(ou \<mapsto> (a, atr))) (outputs_of (output_slot atr)) (output_to_node self),
          input_to_node := fold (\<lambda>i m. m(i \<mapsto> (a, atr))) (inputs atr) (input_to_node self)\<rparr>"

text \<open>
  \<^verbatim>\<open>max(d['output'] for d in self.nodes_attr) + 1\<close>: with a list among the outputs either
  a comparison of a list with an integer or the final \<^verbatim>\<open>+ 1\<close> is a TypeError.
\<close>

fun int_outputs :: "out list \<Rightarrow> error + int list" where
  "int_outputs [] = Inr []"
| "int_outputs (OutInt ou # rest) = map_sum id (Cons ou) (int_outputs rest)"
| "int_outputs (OutList _ # rest) = Inl TypeError"

text \<open>\<^verbatim>\<open>_update_members()\<close> without arguments rebuilds \<^verbatim>\<open>size_\<close> and both maps.\<close>

definition update_members :: "NeuralTreeNet \<Rightarrow> error + NeuralTreeNet" where
  "update_members self =
     (case (if nodes_attr self = [] then Inr (dim self)
            else map_sum id (\<lambda>os. fold max (tl os) (hd os) + 1)
                   (int_outputs (map output_slot (nodes_attr self)))) of
        Inl e \<Rightarrow> Inl e
      | Inr sz \<Rightarrow>
          Inr (fold (\<lambda>(a, atr) net. register a atr net) (zip (nodes self) (nodes_attr self))
                 (self\<lparr>net_size := sz, output_to_node := Map.empty, input_to_node := Map.empty\<rparr>)))"

text \<open>\<^verbatim>\<open>_update_members(node, attr)\<close> extends them for the unit just appended.\<close>

definition update_members_node :: "heap \<Rightarrow> NeuralTreeNet \<Rightarrow> addr \<Rightarrow> attr \<Rightarrow> error + NeuralTreeNet" where
  "update_members_node h self a atr =
     (case input_weights (h ! a) of
        Inl e \<Rightarrow> Inl e
      | Inr iw \<Rightarrow>
          (case shape iw of
             [] \<Rightarrow> Inl IndexError
           | s0 # rest \<Rightarrow>
               Inr (register a atr
                      (self\<lparr>net_size := (if length (shape iw) = 1 then net_size self + 1
                                        else net_size self + int s0)\<rparr>))))"

text \<open>
  \<^verbatim>\<open>NeuralTreeNet(dim, empty)\<close>. With \<^verbatim>\<open>empty=False\<close> the network starts with an
  identity unit over all inputs; \<^verbatim>\<open>numpy.ones\<close> of a negative length raises.
\<close>

definition NeuralTreeNet_init :: "heap \<Rightarrow> int \<Rightarrow> bool \<Rightarrow> error + heap \<times> NeuralTreeNet" where
  "NeuralTreeNet_init h d is_empty =
     (if is_empty then
        map_sum id (Pair h)
          (update_members \<lparr>dim = d, nodes = [], nodes_attr = [], net_size = 0,
                           output_to_node = Map.empty, input_to_node = Map.empty\<rparr>)
      else if d < 0 then Inl NumpyValueError
      else
        (case NeuralTreeNode_init (NDArray [nat d] (replicate (nat d) 1)) (BScalar 0)
                ''identity'' 0 None of
           Inl e \<Rightarrow> Inl e
         | Inr n \<Rightarrow>
             (let (a, h') = alloc h n in
              map_sum id (Pair h')
                (update_members
                   \<lparr>dim = d, nodes = [a],
                    nodes_attr = [\<lparr>inputs = map int [0..<nat d], output_slot = OutInt d,
                                   coef_size = size_nd (coef n), first_coef = 0\<rparr>],
                    net_size = 0, output_to_node = Map.empty, input_to_node = Map.empty\<rparr>))))"

text \<open>\<^verbatim>\<open>clear\<close> deletes every unit and every placement and rebuilds the members.\<close>

definition clear :: "NeuralTreeNet \<Rightarrow> error + NeuralTreeNet" where
  "clear self = update_members (self\<lparr>nodes := [], nodes_attr := []\<rparr>)"

definition next_first_coef :: "NeuralTreeNet \<Rightarrow> nat" where
  "next_first_coef self =
     (if length (nodes_attr self) = 0 then 0
      else first_coef (last (nodes_attr self)) + coef_size (last (nodes_attr self)))"

text \<open>
  \<^verbatim>\<open>append(node, inputs)\<close>. The result is the exception raised, if any, and the store and
  the network as the call leaves them.
\<close>

definition append :: "heap \<Rightarrow> NeuralTreeNet \<Rightarrow> addr \<Rightarrow> int list \<Rightarrow> error option \<times> heap \<times> NeuralTreeNet" where
  "append h self a inps =
     (case input_weights (h ! a) of
        Inl e \<Rightarrow> (Some e, h, self)
      | Inr iw \<Rightarrow>
          if length (shape iw) = 1 then
            (if shape iw ! 0 \<noteq> length inps then (Some DimensionMismatch, h, self)
             else
               (let h1 = h[a := (h ! a)\<lparr>nodeid := int (length (nodes self))\<rparr>];
                    self1 = self\<lparr>nodes := nodes self @ [a]\<rparr>;
                    atr = \<lparr>inputs = inps, output_slot = OutInt (net_size self),
                          coef_size = size_nd (coef (h1 ! a)), first_coef = next_first_coef self1\<rparr>;
                    self2 = self1\<lparr>nodes_attr := nodes_attr self1 @ [atr]\<rparr>
                in (case update_members_node h1 self2 a atr of
                      Inl e \<Rightarrow> (Some e, h1, self2)
                    | Inr self3 \<Rightarrow> (None, h1, self3))))
          else if length (shape iw) = 2 then
            (if shape iw ! 1 \<noteq> length inps then (Some DimensionMismatch, h, self)
             else
               (let h1 = h[a := (h ! a)\<lparr>nodeid := int (length (nodes self))\<rparr>];
                    self1 = self\<lparr>nodes := nodes self @ [a]\<rparr>;
                    atr = \<lparr>inputs = inps,
                          output_slot = OutList (map (\<lambda>j. net_size self + int j) [0..<shape iw ! 0]),
                          coef_size = size_nd (coef (h1 ! a)), first_coef = next_first_coef self1\<rparr>;
                    self2 = self1\<lparr>nodes_attr := nodes_attr self1 @ [atr]\<rparr>
                in (case update_members_node h1 self2 a atr of
                      Inl e \<Rightarrow> (Some e, h1, self2)
                    | Inr self3 \<Rightarrow> (None, h1, self3))))
          else (Some BadCoefRank, h, self))"

text \<open>
  \<^verbatim>\<open>predict\<close> of one unit on one sample (a vector). A single-output unit computes the
  scalar \<^verbatim>\<open>X @ coef[1:] + coef[0]\<close>, a multi-output unit one such value per row; the
  inner product raises when the lengths differ. The constructor makes \<^verbatim>\<open>n_outputs = 1\<close>
  exactly for a vector of coefficients and no update changes a shape; \<open>IllFormedUnit\<close>
  marks the combinations that therefore do not occur.
\<close>

definition dot :: "real list \<Rightarrow> real list \<Rightarrow> error + real" where
  "dot xs ws = (if length xs = length ws then Inr (sum_list (map (\<lambda>(x, w). x * w) (zip xs ws)))
                else Inl NumpyValueError)"

fun dots :: "real list \<Rightarrow> real list list \<Rightarrow> error + real list" where
  "dots X [] = Inr []"
| "dots X (row # rows) =
     (case row of
        [] \<Rightarrow> Inl NumpyValueError
      | b # ws \<Rightarrow>
          (case dot X ws of Inl e \<Rightarrow> Inl e
           | Inr v \<Rightarrow> map_sum id (Cons (v + b)) (dots X rows)))"

datatype unit_error = IllFormedUnit | Raised error

definition node_predict :: "NeuralTreeNode \<Rightarrow> real list \<Rightarrow> unit_error + ndarray" where
  "node_predict self X =
     (case get_activation_function (activation self) of
        Inl e \<Rightarrow> Inl (Raised e)
      | Inr activation_fn \<Rightarrow>
          (case shape (coef self) of
             [n] \<Rightarrow>
               if n_outputs self \<noteq> 1 then Inl IllFormedUnit
               else
                 (case dots X [data (coef self)] of
                    Inl e \<Rightarrow> Inl (Raised e)
                  | Inr z \<Rightarrow>
                      (case activation_fn z of
                         Inl e \<Rightarrow> Inl (Raised e)
                       | Inr y \<Rightarrow> Inr (NDArray [] y)))
           | [r, c] \<Rightarrow>
               if n_outputs self = 1 then Inl IllFormedUnit
               else
                 (case dots X (rows_of r c (data (coef self))) of
                    Inl e \<Rightarrow> Inl (Raised e)
                  | Inr z \<Rightarrow>
                      (case activation_fn z of
                         Inl e \<Rightarrow> Inl (Raised e)
                       | Inr y \<Rightarrow> Inr (vec y)))
           | _ \<Rightarrow> Inl IllFormedUnit))"

text \<open>
  \<^verbatim>\<open>res[:d] = X\<close>: the slice ends at \<open>d\<close>, counted from the end when negative and clipped
  to the array; \<open>X\<close> must have the slice's length or a single element.
\<close>

definition slice_stop :: "nat \<Rightarrow> int \<Rightarrow> nat" where
  "slice_stop len d = (if d < 0 then nat (max 0 (int len + d)) else min (nat d) len)"

definition broadcast_to :: "nat \<Rightarrow> real list \<Rightarrow> error + real list" where
  "broadcast_to n vs =
     (if length vs = n then Inr vs
      else if length vs = 1 then Inr (replicate n (hd vs))
      else Inl NumpyValueError)"

definition assign_prefix :: "real list \<Rightarrow> int \<Rightarrow> real list \<Rightarrow> error + real list" where
  "assign_prefix res d X =
     (let t = slice_stop (length res) d in
      case broadcast_to t X of Inl e \<Rightarrow> Inl e | Inr vs \<Rightarrow> Inr (vs @ drop t res))"

text \<open>\<^verbatim>\<open>res[attr['output']] = value\<close> for an integer slot or a list of slots.\<close>

fun set_all :: "real list \<Rightarrow> (int \<times> real) list \<Rightarrow> error + real list" where
  "set_all res [] = Inr res"
| "set_all res ((i, v) # rest) =
     (case py_set res i v of Inl e \<Rightarrow> Inl e | Inr res' \<Rightarrow> set_all res' rest)"

definition assign_out :: "real list \<Rightarrow> out \<Rightarrow> ndarray \<Rightarrow> error + real list" where
  "assign_out res ou val =
     (case ou of
        OutInt i \<Rightarrow>
          (if length (data val) = 1 then py_set res i (hd (data val)) else Inl NumpyValueError)
      | OutList is \<Rightarrow>
          (case broadcast_to (length is) (data val) of
             Inl e \<Rightarrow> Inl e
           | Inr vs \<Rightarrow> set_all res (zip is vs)))"

text \<open>The loop of \<^verbatim>\<open>_predict_one\<close> over \<^verbatim>\<open>zip(self.nodes, self.nodes_attr)\<close>.\<close>

fun predict_loop :: "heap \<Rightarrow> (addr \<times> attr) list \<Rightarrow> real list \<Rightarrow> unit_error + real list" where
  "predict_loop h [] res = Inr res"
| "predict_loop h ((a, atr) # rest) res =
     (case take_idx res (inputs atr) of
        Inl e \<Rightarrow> Inl (Raised e)
      | Inr xs \<Rightarrow>
          (case node_predict (h ! a) xs of
             Inl e \<Rightarrow> Inl e
           | Inr val \<Rightarrow>
               (case assign_out res (output_slot atr) val of
                  Inl e \<Rightarrow> Inl (Raised e)
                | Inr res' \<Rightarrow> predict_loop h rest res')))"

definition predict_one :: "heap \<Rightarrow> NeuralTreeNet \<Rightarrow> real list \<Rightarrow> unit_error + real list" where
  "predict_one h self X =
     (if net_size self < 0 then Inl (Raised NumpyValueError)
      else
        (case assign_prefix (replicate (nat (net_size self)) 0) (dim self) X of
           Inl e \<Rightarrow> Inl (Raised e)
         | Inr res \<Rightarrow> predict_loop h (zip (nodes self) (nodes_attr self)) res))"

text \<open>
  \<^verbatim>\<open>res[pos:pos + s] = vs\<close>: both ends of the slice are clipped to the array, and \<open>vs\<close>
  must have the slice's length or a single element.
\<close>

definition assign_slice :: "real list \<Rightarrow> nat \<Rightarrow> nat \<Rightarrow> real list \<Rightarrow> error + real list" where
  "assign_slice res pos s vs =
     (let start = min pos (length res); stop = min (pos + s) (length res) in
      case broadcast_to (stop - start) vs of
        Inl e \<Rightarrow> Inl e
      | Inr ws \<Rightarrow> Inr (take start res @ ws @ drop stop res))"

text \<open>The property \<^verbatim>\<open>shape\<close> of a network: the number of coefficients of all its units.\<close>

definition net_shape :: "heap \<Rightarrow> NeuralTreeNet \<Rightarrow> nat" where
  "net_shape h self = sum_list (map (\<lambda>a. size_nd (coef (h ! a))) (nodes self))"

fun training_weights_loop :: "heap \<Rightarrow> addr list \<Rightarrow> real list \<Rightarrow> nat \<Rightarrow> error + real list" where
  "training_weights_loop h [] res pos = Inr res"
| "training_weights_loop h (a # rest) res pos =
     (let s = size_nd (coef (h ! a)) in
      case assign_slice res pos s (ravel (coef (h ! a))) of
        Inl e \<Rightarrow> Inl e
      | Inr res' \<Rightarrow> training_weights_loop h rest res' (pos + s))"

text \<open>\<^verbatim>\<open>training_weights\<close>; the cells of \<^verbatim>\<open>numpy.empty\<close> start as zeros here.\<close>

definition training_weights :: "heap \<Rightarrow> NeuralTreeNet \<Rightarrow> error + real list" where
  "training_weights h self =
     training_weights_loop h (nodes self) (replicate (net_shape h self) 0) 0"



text \<open>
  \<^verbatim>\<open>_get_output_node_attr(nb_last)\<close>. The generator runs \<open>i\<close> over
  \<^verbatim>\<open>range(len(self.nodes) - nb_last, len(self.nodes))\<close> and looks
  \<^verbatim>\<open>self.nodes[i].nodeid\<close> up in \<^verbatim>\<open>output_to_node_\<close>; a missing key is a KeyError.
\<close>

definition lookup :: "('k \<rightharpoonup> 'v) \<Rightarrow> 'k \<Rightarrow> error + 'v" where
  "lookup m k = (case m k of None \<Rightarrow> Inl KeyError | Some v \<Rightarrow> Inr v)"

fun neurones_of :: "heap \<Rightarrow> NeuralTreeNet \<Rightarrow> int list \<Rightarrow> error + int list" where
  "neurones_of h self [] = Inr []"
| "neurones_of h self (i # rest) =
     (case py_get (nodes self) i of
        Inl e \<Rightarrow> Inl e
      | Inr a \<Rightarrow>
          (case lookup (output_to_node self) (nodeid (h ! a)) of
             Inl e \<Rightarrow> Inl e
           | Inr (b, _) \<Rightarrow> map_sum id (Cons (nodeid (h ! b))) (neurones_of h self rest)))"

definition get_output_node_attr :: "heap \<Rightarrow> NeuralTreeNet \<Rightarrow> int \<Rightarrow> error + addr \<times> attr" where
  "get_output_node_attr h self nb_last =
     (case neurones_of h self [int (length (nodes self)) - nb_last ..int (length (nodes self)) - 1] of
        Inl e \<Rightarrow> Inl e
      | Inr neurones \<Rightarrow>
          if length (remdups neurones) \<noteq> 1 then Inl MultipleOutputUnits
          else lookup (output_to_node self) (int (length (nodes self)) - 1))"

text \<open>
  \<^verbatim>\<open>_common_loss_dloss(X, y, cache)\<close>, the common beginning of \<^verbatim>\<open>loss\<close>,
  \<^verbatim>\<open>dlossds\<close> and \<^verbatim>\<open>dlossdw\<close> of a network, for one sample \<open>X\<close>. The argument
  \<open>cache\<close> is the state stored under \<^verbatim>\<open>-1\<close> when a cache holding it is passed.
  \<^verbatim>\<open>res[-last:]\<close> starts \<open>last\<close> cells before the end (at the start when there are
  fewer, the whole array for \<^verbatim>\<open>-0\<close>).
\<close>

definition last_cells :: "real list \<Rightarrow> int \<Rightarrow> real list" where
  "last_cells res l =
     (if l = 0 then res
      else if l < 0 then drop (min (nat (- l)) (length res)) res
      else drop (length res - nat l) res)"

definition common_loss_dloss ::
  "heap \<Rightarrow> NeuralTreeNet \<Rightarrow> real list \<Rightarrow> ndarray \<Rightarrow> real list option
     \<Rightarrow> unit_error + real list \<times> real list \<times> addr \<times> attr" where
  "common_loss_dloss h self X y cache =
     (let l = (if length (shape y) \<le> 1 then 1 else int (shape y ! 1)) in
      case (case cache of Some res \<Rightarrow> Inr res | None \<Rightarrow> predict_one h self X) of
        Inl e \<Rightarrow> Inl e
      | Inr res \<Rightarrow>
          (case get_output_node_attr h self l of
             Inl e \<Rightarrow> Inl (Raised e)
           | Inr (last_node, last_attr) \<Rightarrow> Inr (res, last_cells res l, last_node, last_attr)))"

section \<open>Tree compiler\<close>

text \<open>
  The decision tree \<^verbatim>\<open>create_from_tree\<close> reads: the arrays of \<^verbatim>\<open>tree.tree_\<close>, one
  entry per tree node, with \<^verbatim>\<open>value\<close> as the flat sequence of its numbers, and the
  members \<^verbatim>\<open>n_classes_\<close> and \<^verbatim>\<open>max_features_\<close>.
\<close>

record DecisionTree =
  n_classes :: int
  node_count :: nat
  children_left :: "int list"
  children_right :: "int list"
  feature :: "int list"
  threshold :: "real list"
  tree_value :: "real list"
  max_features :: int

definition raised :: "error + 'a \<Rightarrow> unit_error + 'a" where
  "raised m = (case m of Inl e \<Rightarrow> Inl (Raised e) | Inr x \<Rightarrow> Inr x)"

definition and_then :: "unit_error + 'a \<Rightarrow> ('a \<Rightarrow> unit_error + 'b) \<Rightarrow> unit_error + 'b" where
  "and_then m f = (case m of Inl e \<Rightarrow> Inl e | Inr x \<Rightarrow> f x)"

text \<open>\<^verbatim>\<open>value.reshape((-1, 2))\<close> needs an even number of elements.\<close>

fun pairs :: "real list \<Rightarrow> error + (real \<times> real) list" where
  "pairs [] = Inr []"
| "pairs [x] = Inl NumpyValueError"
| "pairs (x # y # rest) = map_sum id (Cons (x, y)) (pairs rest)"

text \<open>\<^verbatim>\<open>"%d" % i\<close> for a tree node index.\<close>

fun decimal :: "nat \<Rightarrow> string" where
  "decimal n = (if n < 10 then [char_of (48 + n)] else decimal (n div 10) @ [char_of (48 + n mod 10)])"

declare decimal.simps [simp del]

text \<open>A new unit with the given weights, bias, activation and tag, and its reference.\<close>

definition new_node ::
  "heap \<Rightarrow> ndarray \<Rightarrow> real \<Rightarrow> string \<Rightarrow> string \<Rightarrow> unit_error + addr \<times> heap" where
  "new_node h weights bias act tg =
     (case NeuralTreeNode_init weights (BScalar bias) act (- 1) (Some tg) of
        Inl e \<Rightarrow> Inl (Raised e)
      | Inr n \<Rightarrow> Inr (alloc h n))"

text \<open>\<^verbatim>\<open>root.append(node, inputs)\<close> inside the compiler: an exception ends the compilation.\<close>

definition root_append ::
  "heap \<Rightarrow> NeuralTreeNet \<Rightarrow> addr \<Rightarrow> int list \<Rightarrow> unit_error + heap \<times> NeuralTreeNet" where
  "root_append h rnet a inps =
     (case append h rnet a inps of
        (Some e, _, _) \<Rightarrow> Inl (Raised e)
      | (None, h', root') \<Rightarrow> Inr (h', root'))"

text \<open>\<^verbatim>\<open>root[i][1]\<close>: \<^verbatim>\<open>__getitem__\<close> indexes both lists, the placement is the second item.\<close>

definition getitem :: "NeuralTreeNet \<Rightarrow> int \<Rightarrow> error + addr \<times> attr" where
  "getitem self i =
     (case py_get (nodes self) i of
        Inl e \<Rightarrow> Inl e
      | Inr a \<Rightarrow> (case py_get (nodes_attr self) i of Inl e \<Rightarrow> Inl e | Inr atr \<Rightarrow> Inr (a, atr)))"

text \<open>
  The output of a unit used as one input slot of another. The units the compiler uses
  this way have one output; a list of slots here would not be an index.
\<close>

definition slot_of :: "attr \<Rightarrow> unit_error + int" where
  "slot_of atr = (case output_slot atr of OutInt s \<Rightarrow> Inr s | OutList _ \<Rightarrow> Inl IllFormedUnit)"

definition output_of :: "heap \<Rightarrow> NeuralTreeNet \<Rightarrow> addr \<Rightarrow> unit_error + int" where
  "output_of h rnet a =
     and_then (raised (getitem rnet (nodeid (h ! a)))) (\<lambda>(_, atr). slot_of atr)"

type_synonym compile_state =
  "heap \<times> NeuralTreeNet \<times> (int \<rightharpoonup> addr) \<times> (int \<rightharpoonup> addr list)"

text \<open>
  The threshold unit of tree node \<open>i\<close>: weight \<open>-k\<close> on the split feature, bias
  \<open>k * threshold[i]\<close>, appended on all the features.
\<close>

definition threshold_unit ::
  "real \<Rightarrow> DecisionTree \<Rightarrow> heap \<Rightarrow> NeuralTreeNet \<Rightarrow> nat \<Rightarrow> unit_error + addr \<times> heap \<times> NeuralTreeNet" where
  "threshold_unit k tree h rnet i =
     (if max_features tree < 0 then Inl (Raised NumpyValueError)
      else
        and_then (raised (py_get (feature tree) (int i))) (\<lambda>f.
        and_then (raised (py_set (replicate (nat (max_features tree)) 0) f (- k))) (\<lambda>c.
        and_then (raised (py_get (threshold tree) (int i))) (\<lambda>th.
        and_then (new_node h (vec c) (k * th) ''sigmoid4'' (''N'' @ decimal i @ ''-th'')) (\<lambda>(node_th, h1).
        and_then (root_append h1 rnet node_th (map int [0..<nat (max_features tree)])) (\<lambda>(h2, root2).
          Inr (node_th, h2, root2)))))))"

text \<open>
  The block under \<^verbatim>\<open>if i in predecessor\<close>: two units over the outputs of the
  predecessor \<open>pred\<close> and of the threshold unit \<open>node_th\<close>.
\<close>

definition combine ::
  "real \<Rightarrow> heap \<Rightarrow> NeuralTreeNet \<Rightarrow> nat \<Rightarrow> addr \<Rightarrow> addr
     \<Rightarrow> unit_error + addr \<times> addr \<times> heap \<times> NeuralTreeNet" where
  "combine k h rnet i pred node_th =
     and_then (raised (getitem rnet (nodeid (h ! pred)))) (\<lambda>(_, attr1).
     and_then (raised (getitem rnet (nodeid (h ! node_th)))) (\<lambda>(_, attr2).
     and_then (new_node h (vec [1 * k, 1 * k]) (- k * (3 / 2)) ''sigmoid4''
                 (''N'' @ decimal i @ ''-T'')) (\<lambda>(node_true, h1).
     and_then (slot_of attr1) (\<lambda>s1.
     and_then (slot_of attr2) (\<lambda>s2.
     and_then (root_append h1 rnet node_true [s1, s2]) (\<lambda>(h2, root2).
     and_then (new_node h2 (vec [k, - k]) (- k * (1 / 4)) ''sigmoid4''
                 (''N'' @ decimal i @ ''-F'')) (\<lambda>(node_false, h3).
     and_then (root_append h3 root2 node_false [s1, s2]) (\<lambda>(h4, root4).
       Inr (node_true, node_false, h4, root4)))))))))"

text \<open>The block for the root of the tree: one identity unit \<open>1 - x\<close> after the threshold unit.\<close>

definition negate ::
  "heap \<Rightarrow> NeuralTreeNet \<Rightarrow> nat \<Rightarrow> addr \<Rightarrow> unit_error + addr \<times> heap \<times> NeuralTreeNet" where
  "negate h rnet i node_th =
     and_then (new_node h (vec [1 * (- 1)]) 1 ''identity'' (''N'' @ decimal i @ ''-F'')) (\<lambda>(node_false, h1).
     and_then (raised (getitem rnet (nodeid (h1 ! node_th)))) (\<lambda>(_, atr).
     and_then (slot_of atr) (\<lambda>s.
     and_then (root_append h1 rnet node_false [s]) (\<lambda>(h2, root2).
       Inr (node_false, h2, root2)))))"

text \<open>One turn of the loop \<^verbatim>\<open>for i in range(n_nodes)\<close>.\<close>

definition tree_step ::
  "real \<Rightarrow> DecisionTree \<Rightarrow> int list \<Rightarrow> compile_state \<Rightarrow> nat \<Rightarrow> unit_error + compile_state" where
  "tree_step k tree output_class st i =
     (case st of (h, rnet, predecessor, outputs) \<Rightarrow>
      and_then (raised (py_get (children_left tree) (int i))) (\<lambda>cl.
      and_then (raised (py_get (children_right tree) (int i))) (\<lambda>cr.
        if cl \<noteq> cr then
          and_then (threshold_unit k tree h rnet i) (\<lambda>(node_th, h1, root1).
            case predecessor (int i) of
              Some pred \<Rightarrow>
                and_then (combine k h1 root1 i pred node_th) (\<lambda>(node_true, node_false, h2, root2).
                  Inr (h2, root2, predecessor(cl \<mapsto> node_true, cr \<mapsto> node_false), outputs))
            | None \<Rightarrow>
                and_then (negate h1 root1 i node_th) (\<lambda>(node_false, h2, root2).
                  Inr (h2, root2, predecessor(cl \<mapsto> node_th, cr \<mapsto> node_false), outputs)))
        else
          (case predecessor (int i) of
             Some pred \<Rightarrow>
               and_then (raised (py_get output_class (int i))) (\<lambda>c.
               and_then (raised (lookup outputs c)) (\<lambda>units.
                 Inr (h, rnet, predecessor, outputs(c \<mapsto> units @ [pred]))))
           | None \<Rightarrow> Inr st))))"

fun tree_loop ::
  "real \<Rightarrow> DecisionTree \<Rightarrow> int list \<Rightarrow> compile_state \<Rightarrow> nat list \<Rightarrow> unit_error + compile_state" where
  "tree_loop k tree output_class st [] = Inr st"
| "tree_loop k tree output_class st (i # rest) =
     and_then (tree_step k tree output_class st i) (\<lambda>st'. tree_loop k tree output_class st' rest)"

text \<open>
  The final unit: one row per class with \<open>k\<close> on the columns of that class's leaves,
  bias \<open>-k / 2\<close>, appended on the outputs of the units recorded for the leaves.
\<close>

fun block_rows :: "real \<Rightarrow> nat \<Rightarrow> nat \<Rightarrow> nat list \<Rightarrow> real list list" where
  "block_rows k width start [] = []"
| "block_rows k width start (n # ns) =
     (replicate start 0 @ replicate n k @ replicate (width - start - n) 0)
       # block_rows k width (start + n) ns"

fun collect :: "('a \<Rightarrow> unit_error + 'b) \<Rightarrow> 'a list \<Rightarrow> unit_error + 'b list" where
  "collect f [] = Inr []"
| "collect f (x # xs) = and_then (f x) (\<lambda>y. and_then (collect f xs) (\<lambda>ys. Inr (y # ys)))"

definition final_node ::
  "real \<Rightarrow> DecisionTree \<Rightarrow> compile_state \<Rightarrow> unit_error + heap \<times> NeuralTreeNet" where
  "final_node k tree st =
     (case st of (h, rnet, predecessor, outputs) \<Rightarrow>
      and_then (collect (\<lambda>c. raised (lookup outputs (int c))) [0..<nat (n_classes tree)]) (\<lambda>groups.
        let units = concat groups; nb = map length groups in
        and_then (collect (output_of h rnet) units) (\<lambda>feat.
        and_then (new_node h (NDArray [length nb, length units]
                                (concat (block_rows k (length units) 0 nb)))
                    (- k / 2) ''softmax4'' ''Nfinal'') (\<lambda>(node, h1).
          root_append h1 rnet node feat))))"

definition create_from_tree ::
  "heap \<Rightarrow> DecisionTree \<Rightarrow> real \<Rightarrow> unit_error + heap \<times> NeuralTreeNet" where
  "create_from_tree h tree k =
     (if n_classes tree > 2 then Inl (Raised NotBinary)
      else
        and_then (raised (pairs (tree_value tree))) (\<lambda>val.
        and_then (raised (NeuralTreeNet_init h (max_features tree) True)) (\<lambda>(h0, rnet).
        and_then (tree_loop k tree (map (\<lambda>(v0, v1). if v1 > v0 then 1 else 0) val)
                    (h0, rnet, Map.empty, (\<lambda>c. if 0 \<le> c \<and> c < n_classes tree then Some [] else None))
                    [0..<node_count tree])
          (final_node k tree))))"


section \<open>Notions used in the statements\<close>




text \<open>
  Placement from slot \<open>s\<close> on: every unit reads slots below the first free one and
  writes the next free slots, in order. \<open>span\<close> counts the slots the units write.
\<close>

definition span :: "attr list \<Rightarrow> int" where
  "span ats = sum_list (map (\<lambda>atr. int (length (outputs_of (output_slot atr)))) ats)"

fun placed :: "int \<Rightarrow> attr list \<Rightarrow> bool" where
  "placed s [] = True"
| "placed s (atr # rest) =
     (list_all (\<lambda>i. 0 \<le> i \<and> i < s) (inputs atr)
      \<and> outputs_of (output_slot atr)
          = map (\<lambda>j. s + int j) [0..<length (outputs_of (output_slot atr))]
      \<and> placed (s + int (length (outputs_of (output_slot atr)))) rest)"

definition placement_ok :: "NeuralTreeNet \<Rightarrow> bool" where
  "placement_ok net =
     (placed (dim net) (nodes_attr net) \<and> net_size net = dim net + span (nodes_attr net))"

text \<open>
  The networks a program can build with slot indices that exist: a fresh network, then
  each time either \<open>clear\<close> or a successful \<open>append\<close> (with the units of the store in
  any state) whose input slots lie in \<open>0 .. size_ - 1\<close> at the time of the call.
  \<open>update_training_weights\<close> changes units of the store and returns no network; it is
  covered by the store being arbitrary at every \<open>append\<close>.
\<close>

inductive reachable :: "NeuralTreeNet \<Rightarrow> bool" where
  fresh: "NeuralTreeNet_init h d e = Inr (h', net) \<Longrightarrow> reachable net"
| appended: "reachable net \<Longrightarrow> list_all (\<lambda>i. 0 \<le> i \<and> i < net_size net) inps \<Longrightarrow>
             append h net a inps = (None, h', net') \<Longrightarrow> reachable net'"
| cleared: "reachable net \<Longrightarrow> clear net = Inr net' \<Longrightarrow> reachable net'"

section \<open>Unfolding the definitions on concrete inputs\<close>

lemmas unit_defs =
  NeuralTreeNode_init_def fill_bias_def set_fcts_def rows_of_def
  get_activation_function_def get_activation_gradient_function_def
  get_activation_loss_function_def get_activation_dloss_function_def
  input_weights_def drop_first_def drop_first_column_def size_nd_def

lemmas net_defs =
  NeuralTreeNet_init_def update_members_def update_members_node_def register_def
  outputs_of_def next_first_coef_def alloc_def append_def clear_def Let_def


lemmas predict_defs =
  predict_one_def assign_prefix_def slice_stop_def broadcast_to_def py_get_def py_set_def
  wrap_index_def node_predict_def dot_def assign_out_def

section \<open>Properties of the activation catalog\<close>

lemma forward_lookup:
  "get_activation_function a = Inl UnknownActivation \<longleftrightarrow> a \<notin> activation_kinds"
  by (simp add: get_activation_function_def activation_kinds_def)

lemma gradient_lookup:
  "get_activation_gradient_function a = Inl UnknownActivationGradient \<longleftrightarrow> a \<notin> activation_kinds"
  by (simp add: get_activation_gradient_function_def activation_kinds_def)

lemma forward_lookup_ok:
  "a \<in> activation_kinds \<Longrightarrow> \<exists>f. get_activation_function a = Inr f"
  by (auto simp add: get_activation_function_def activation_kinds_def)

lemma gradient_lookup_ok:
  "a \<in> activation_kinds \<Longrightarrow> \<exists>g. get_activation_gradient_function a = Inr g"
  by (auto simp add: get_activation_gradient_function_def activation_kinds_def)

lemma set_fcts_unknown:
  "activation n \<notin> activation_kinds \<Longrightarrow> set_fcts n = Inl UnknownActivation"
  using forward_lookup [of "activation n"] by (simp add: set_fcts_def)

lemma init_unknown:
  "a \<notin> activation_kinds \<Longrightarrow> \<exists>e. NeuralTreeNode_init w b a nid tg = Inl e"
  by (auto simp add: NeuralTreeNode_init_def Let_def set_fcts_unknown split: sum.splits)

text \<open>
  C8. A name outside the nine the tables know makes the forward lookup and the gradient
  lookup raise, and so makes the constructor of a unit raise; each of the nine names
  makes both lookups return a function.
\<close>

theorem unknown_activation_is_an_error:
  "(a \<notin> activation_kinds \<longrightarrow>
      get_activation_function a = Inl UnknownActivation
    \<and> get_activation_gradient_function a = Inl UnknownActivationGradient
    \<and> (\<exists>e. NeuralTreeNode_init w b a nid tg = Inl e))
   \<and> (a \<in> activation_kinds \<longrightarrow>
      (\<exists>f. get_activation_function a = Inr f)
    \<and> (\<exists>g. get_activation_gradient_function a = Inr g))"
  using forward_lookup [of a] gradient_lookup [of a] forward_lookup_ok [of a]
    gradient_lookup_ok [of a] init_unknown [of a w b nid tg]
  by blast

theorem unknown_activation_is_an_error_witness:
  "''tanh'' \<notin> activation_kinds
   \<and> get_activation_function ''tanh'' = Inl UnknownActivation
   \<and> get_activation_gradient_function ''tanh'' = Inl UnknownActivationGradient
   \<and> (\<exists>e. NeuralTreeNode_init (NDArray [2] [1, 1]) (BScalar 0) ''tanh'' (-1) None = Inl e)
   \<and> ''relu'' \<in> activation_kinds
   \<and> (\<exists>f. get_activation_function ''relu'' = Inr f)
   \<and> (\<exists>g. get_activation_gradient_function ''relu'' = Inr g)"
proof -
  have t: "''tanh'' \<notin> activation_kinds" by (simp add: activation_kinds_def)
  have r: "''relu'' \<in> activation_kinds" by (simp add: activation_kinds_def)
  show ?thesis
    using t r
      unknown_activation_is_an_error [of "''tanh''" "NDArray [2] [1, 1]" "BScalar 0" "-1" None]
      unknown_activation_is_an_error [of "''relu''" "NDArray [2] [1, 1]" "BScalar 0" "-1" None]
    by blast
qed

section \<open>Properties of a unit\<close>

text \<open>
  C7. The two units below are built by the constructor from the same two-row weight
  block, bias and activation, so their coefficient arrays agree elementwise and their
  kinds match; comparing them does not return True, it raises: the comparison of two
  rows is an array of two truth values, which has no truth value.
\<close>

theorem eq_raises_on_multi_output_units:
  "NeuralTreeNode_init (NDArray [2, 1] [1, 1]) (BScalar 0) ''softmax'' (- 1) None
     = Inr \<lparr>coef = NDArray [2, 2] [0, 1, 0, 1], activation = ''softmax'', nodeid = - 1,
             n_outputs = 2, tag = None\<rparr>
   \<and> NeuralTreeNode_eq
       \<lparr>coef = NDArray [2, 2] [0, 1, 0, 1], activation = ''softmax'', nodeid = - 1,
        n_outputs = 2, tag = None\<rparr>
       \<lparr>coef = NDArray [2, 2] [0, 1, 0, 1], activation = ''softmax'', nodeid = - 1,
        n_outputs = 2, tag = None\<rparr>
     = Inl NumpyValueError"
  by (simp add: NeuralTreeNode_init_def NeuralTreeNode_eq_def fill_bias_def set_fcts_def
      get_activation_function_def get_activation_gradient_function_def
      get_activation_loss_function_def get_activation_dloss_function_def
      iter_nd_def rows_of_def truth_value_def upt_rec [of _ 2] upt_rec [of _ 1] numeral_2_eq_2)

section \<open>Properties of the training interface\<close>

text \<open>
  C10. Whatever the trainable's own methods are, \<open>gradient\<close> on an input whose number of
  axes is not one raises the ValueError of its first statement; none of the methods is
  consulted for the result.
\<close>

theorem gradient_rejects_non_vectors:
  "length (shape X) \<noteq> 1 \<Longrightarrow> gradient self X y inps = Inl NotOneDimension"
  by (simp add: gradient_def)

theorem gradient_rejects_non_vectors_witness:
  "length (shape (NDArray [2, 3] [1, 2, 3, 4, 5, 6])) \<noteq> 1
   \<and> gradient TrainingAPI_base (NDArray [2, 3] [1, 2, 3, 4, 5, 6]) (NDArray [2] [0, 1]) False
       = Inl NotOneDimension"
proof -
  have h: "length (shape (NDArray [2, 3] [1, 2, 3, 4, 5, 6])) \<noteq> 1" by simp
  show ?thesis
    using h gradient_rejects_non_vectors [OF h, of TrainingAPI_base "NDArray [2] [0, 1]" False]
    by simp
qed

section \<open>Properties of the computation graph\<close>










text \<open>
  C3. When the number of input slots handed to \<open>append\<close> differs from the width of the
  unit's input weights, the call raises the dimension mismatch and the store and the
  network are as before the call: the same units, the same \<^verbatim>\<open>size_\<close>, the same
  placement metadata, the same flattened weights.
\<close>

theorem append_mismatch_leaves_graph_unchanged:
  assumes "input_weights (h ! a) = Inr iw"
      and "(length (shape iw) = 1 \<and> shape iw ! 0 \<noteq> length inps)
         \<or> (length (shape iw) = 2 \<and> shape iw ! 1 \<noteq> length inps)"
  shows "append h self a inps = (Some DimensionMismatch, h, self)
       \<and> (case append h self a inps of
            (e, h', self') \<Rightarrow>
                length (nodes self') = length (nodes self)
              \<and> net_size self' = net_size self
              \<and> nodes_attr self' = nodes_attr self
              \<and> training_weights h' self' = training_weights h self)"
  using assms by (auto simp: append_def)

theorem append_mismatch_leaves_graph_unchanged_witness:
  "append [\<lparr>coef = NDArray [3] [0, 1, 1], activation = ''identity'', nodeid = - 1,
            n_outputs = 1, tag = None\<rparr>]
          \<lparr>dim = 2, nodes = [], nodes_attr = [], net_size = 2,
           output_to_node = Map.empty, input_to_node = Map.empty\<rparr> 0 [0]
     = (Some DimensionMismatch,
        [\<lparr>coef = NDArray [3] [0, 1, 1], activation = ''identity'', nodeid = - 1,
            n_outputs = 1, tag = None\<rparr>],
        \<lparr>dim = 2, nodes = [], nodes_attr = [], net_size = 2,
           output_to_node = Map.empty, input_to_node = Map.empty\<rparr>)"
proof -
  have iw: "input_weights ([\<lparr>coef = NDArray [3] [0, 1, 1], activation = ''identity'', nodeid = - 1,
            n_outputs = 1, tag = None\<rparr>] ! 0) = Inr (NDArray [2] [1, 1])"
    by (simp add: unit_defs)
  have mm: "(length (shape (NDArray [2] [1, 1])) = 1 \<and> shape (NDArray [2] [1, 1]) ! 0 \<noteq> length [0::int])
         \<or> (length (shape (NDArray [2] [1, 1])) = 2 \<and> shape (NDArray [2] [1, 1]) ! 1 \<noteq> length [0::int])"
    by simp
  show ?thesis
    using append_mismatch_leaves_graph_unchanged [OF iw mm] by simp
qed

text \<open>
  C2. \<^verbatim>\<open>NeuralTreeNet(2, empty=False)\<close> holds one unit, which owns the final output slot
  \<open>2\<close>. On the sample \<open>[1, 2]\<close> with a one-value target the forward pass succeeds, and
  the common beginning of \<open>loss\<close>, \<open>dlossds\<close> and \<open>dlossdw\<close> then raises KeyError instead
  of finding that unit: it looks the unit's identifier \<open>0\<close> up in a map whose keys are
  output slots. In the second network (one input, two chained units) the lookup succeeds
  and returns the first unit, while the final slot belongs to the second.
\<close>

theorem loss_does_not_find_the_output_unit:
  "(case NeuralTreeNet_init [] 2 False of
      Inl _ \<Rightarrow> False
    | Inr (h, net) \<Rightarrow>
          length (nodes net) = 1
        \<and> predict_one h net [1, 2] = Inr [1, 2, 3]
        \<and> common_loss_dloss h net [1, 2] (NDArray [1] [3]) None = Inl (Raised KeyError))
   \<and> (case NeuralTreeNet_init [] 1 False of
      Inl _ \<Rightarrow> False
    | Inr (h0, net0) \<Rightarrow>
       (case NeuralTreeNode_init (NDArray [1] [1]) (BScalar 0) ''identity'' (- 1) None of
          Inl _ \<Rightarrow> False
        | Inr u \<Rightarrow>
           (case alloc h0 u of
              (a, h1) \<Rightarrow>
                (case append h1 net0 a [1] of
                   (e, h, net) \<Rightarrow>
                       e = None \<and> nodes net = [0, 1] \<and> net_size net = 3
                     \<and> map_option fst (output_to_node net (net_size net - 1)) = Some 1
                     \<and> map_sum id (\<lambda>(res, pred, last_node, last_attr). (res, last_node))
                         (common_loss_dloss h net [5] (NDArray [1] [5]) None)
                       = Inr ([5, 5, 5], 0)))))"
  by (simp add: unit_defs net_defs predict_defs common_loss_dloss_def get_output_node_attr_def
      lookup_def last_cells_def numeral_2_eq_2)

section \<open>The flattened weights\<close>












section \<open>Topology of the graph\<close>

lemma input_weights_nodeid [simp]:
  "input_weights (n\<lparr>nodeid := x\<rparr>) = input_weights n"
  by (simp add: input_weights_def)

lemma input_weights_after_id:
  "input_weights (h[a := (h ! a)\<lparr>nodeid := x\<rparr>] ! a) = input_weights (h ! a)"
  by (cases "a < length h") (simp_all add: list_update_beyond)

lemma register_fields [simp]:
  "nodes (register a atr net) = nodes net"
  "nodes_attr (register a atr net) = nodes_attr net"
  "dim (register a atr net) = dim net"
  "net_size (register a atr net) = net_size net"
  by (simp_all add: register_def)

lemma append_success:
  assumes "append h net a inps = (None, h', net')"
  shows "\<exists>atr. nodes net' = nodes net @ [a] \<and> nodes_attr net' = nodes_attr net @ [atr]
             \<and> dim net' = dim net \<and> inputs atr = inps
             \<and> outputs_of (output_slot atr)
                 = map (\<lambda>j. net_size net + int j) [0..<length (outputs_of (output_slot atr))]
             \<and> net_size net' = net_size net + int (length (outputs_of (output_slot atr)))"
  using assms
  by (auto simp: append_def update_members_node_def input_weights_after_id Let_def outputs_of_def
      split: sum.splits if_splits list.splits)

lemma append_failure:
  assumes "append h net a inps = (Some e, h', net')"
  shows "h' = h \<and> net' = net"
  using assms
  by (auto simp: append_def update_members_node_def input_weights_after_id Let_def
      split: sum.splits if_splits list.splits)

lemma span_Cons: "span (atr # ats) = int (length (outputs_of (output_slot atr))) + span ats"
  by (simp add: span_def)

lemma span_snoc: "span (ats @ [atr]) = span ats + int (length (outputs_of (output_slot atr)))"
  by (simp add: span_def)

lemma placed_snoc:
  "placed s (ats @ [atr]) =
     (placed s ats \<and> list_all (\<lambda>i. 0 \<le> i \<and> i < s + span ats) (inputs atr)
      \<and> outputs_of (output_slot atr)
          = map (\<lambda>j. s + span ats + int j) [0..<length (outputs_of (output_slot atr))])"
proof (induction ats arbitrary: s)
  case Nil
  then show ?case by (simp add: span_def)
next
  case (Cons b ats)
  show ?case
    using Cons.IH [of "s + int (length (outputs_of (output_slot b)))"]
    by (auto simp: span_Cons add.assoc)
qed

lemma placement_init:
  assumes "NeuralTreeNet_init h d e = Inr (h', net)"
  shows "placement_ok net"
proof (cases e)
  case True
  then have "dim net = d \<and> nodes_attr net = [] \<and> net_size net = d"
    using assms
    by (auto simp: NeuralTreeNet_init_def update_members_def split: sum.splits)
  then show ?thesis by (simp add: placement_ok_def span_def)
next
  case False
  then have d0: "0 \<le> d" using assms by (auto simp: NeuralTreeNet_init_def split: if_splits)
  have "dim net = d \<and> net_size net = d + 1
      \<and> (\<exists>c. nodes_attr net = [\<lparr>inputs = map int [0..<nat d], output_slot = OutInt d,
                                   coef_size = c, first_coef = 0\<rparr>])"
    using assms False d0
    by (auto simp: NeuralTreeNet_init_def update_members_def alloc_def Let_def
        split: sum.splits if_splits)
  then show ?thesis
    using d0 by (auto simp: placement_ok_def span_def outputs_of_def list_all_iff)
qed

lemma placement_clear:
  assumes "clear net = Inr net'"
  shows "placement_ok net' \<and> nodes net' = [] \<and> nodes_attr net' = []"
  using assms
  by (auto simp: clear_def update_members_def placement_ok_def span_def split: sum.splits)

lemma placement_append:
  assumes "placement_ok net"
      and "list_all (\<lambda>i. 0 \<le> i \<and> i < net_size net) inps"
      and "append h net a inps = (None, h', net')"
  shows "placement_ok net'"
proof -
  obtain atr where atr: "nodes_attr net' = nodes_attr net @ [atr]" "dim net' = dim net"
      "inputs atr = inps"
      "outputs_of (output_slot atr)
         = map (\<lambda>j. net_size net + int j) [0..<length (outputs_of (output_slot atr))]"
      "net_size net' = net_size net + int (length (outputs_of (output_slot atr)))"
    using append_success [OF assms(3)] by blast
  have sz: "net_size net = dim net + span (nodes_attr net)"
    using assms(1) by (simp add: placement_ok_def)
  have "placed (dim net) (nodes_attr net @ [atr])"
    unfolding placed_snoc using assms(1,2) atr(3,4) sz by (simp add: placement_ok_def)
  then show ?thesis
    using atr sz by (simp add: placement_ok_def span_snoc)
qed

lemma reachable_placement: "reachable net \<Longrightarrow> placement_ok net"
proof (induction rule: reachable.induct)
  case (fresh h d e h' net)
  then show ?case by (rule placement_init)
next
  case (appended net inps h a h' net')
  then show ?case using placement_append by blast
next
  case (cleared net net')
  then show ?case using placement_clear by blast
qed

lemma placed_refs:
  "placed s ats \<Longrightarrow> k < length ats \<Longrightarrow> i \<in> set (inputs (ats ! k)) \<Longrightarrow>
   (0 \<le> i \<and> i < s) \<or> (\<exists>j<k. i \<in> set (outputs_of (output_slot (ats ! j))))"
proof (induction ats arbitrary: s k)
  case Nil
  then show ?case by simp
next
  case (Cons b ats)
  let ?n = "length (outputs_of (output_slot b))"
  show ?case
  proof (cases k)
    case 0
    then show ?thesis using Cons.prems by (auto simp: list_all_iff)
  next
    case (Suc k')
    have pl: "placed (s + int ?n) ats" using Cons.prems(1) by simp
    have outs: "outputs_of (output_slot b) = map (\<lambda>j. s + int j) [0..<?n]"
      using Cons.prems(1) by simp
    have k': "k' < length ats" and mem: "i \<in> set (inputs (ats ! k'))"
      using Cons.prems(2,3) Suc by simp_all
    from Cons.IH [OF pl k' mem]
    consider (low) "0 \<le> i \<and> i < s + int ?n"
      | (earlier) "\<exists>j<k'. i \<in> set (outputs_of (output_slot (ats ! j)))" by blast
    then show ?thesis
    proof cases
      case low
      show ?thesis
      proof (cases "i < s")
        case True
        then show ?thesis using low by simp
      next
        case False
        then have "i = s + int (nat (i - s)) \<and> nat (i - s) < ?n" using low by auto
        then have "i \<in> set (map (\<lambda>j. s + int j) [0..<?n])" by (metis atLeast0LessThan imageI lessThan_iff set_map set_upt)
        then have "i \<in> set (outputs_of (output_slot ((b # ats) ! 0)))" using outs by simp
        then show ?thesis using Suc by blast
      qed
    next
      case earlier
      then obtain j where "j < k'" "i \<in> set (outputs_of (output_slot (ats ! j)))" by blast
      then have "Suc j < k \<and> i \<in> set (outputs_of (output_slot ((b # ats) ! Suc j)))"
        using Suc by simp
      then show ?thesis by blast
    qed
  qed
qed

text \<open>
  C4, as amended. \<open>append\<close> and \<open>clear\<close> are the operations of a network that change its
  sequence of units: a successful \<open>append\<close> adds the unit after those present and leaves
  them and their placement in place, a failed one changes nothing, \<open>clear\<close> removes every
  unit. In every network built from a fresh one by \<open>clear\<close> and by \<open>append\<close> with input
  slots that exist at the time of the call, each unit's input slots are external input
  slots or output slots of a unit appended earlier.
\<close>

theorem topology_changes_by_append_and_clear:
  "(append h net a inps = (None, h', net') \<longrightarrow>
      nodes net' = nodes net @ [a]
    \<and> butlast (nodes_attr net') = nodes_attr net
    \<and> length (nodes_attr net') = Suc (length (nodes_attr net)))
   \<and> (append h net a inps = (Some e, h', net') \<longrightarrow> h' = h \<and> net' = net)
   \<and> (clear net = Inr net'' \<longrightarrow> nodes net'' = [] \<and> nodes_attr net'' = [])
   \<and> (reachable net \<longrightarrow>
        (\<forall>k<length (nodes_attr net). \<forall>i\<in>set (inputs (nodes_attr net ! k)).
           (0 \<le> i \<and> i < dim net)
         \<or> (\<exists>j<k. i \<in> set (outputs_of (output_slot (nodes_attr net ! j))))))"
proof (intro conjI impI allI ballI)
  assume ok: "append h net a inps = (None, h', net')"
  from append_success [OF ok] obtain atr where
    "nodes net' = nodes net @ [a]" "nodes_attr net' = nodes_attr net @ [atr]" by blast
  then show "nodes net' = nodes net @ [a]" "butlast (nodes_attr net') = nodes_attr net"
    "length (nodes_attr net') = Suc (length (nodes_attr net))" by simp_all
next
  assume "append h net a inps = (Some e, h', net')"
  then show "h' = h" "net' = net" using append_failure by blast+
next
  assume "clear net = Inr net''"
  then show "nodes net'' = []" "nodes_attr net'' = []" using placement_clear by blast+
next
  fix k i
  assume "reachable net" "k < length (nodes_attr net)" "i \<in> set (inputs (nodes_attr net ! k))"
  then show "(0 \<le> i \<and> i < dim net)
      \<or> (\<exists>j<k. i \<in> set (outputs_of (output_slot (nodes_attr net ! j))))"
    using reachable_placement [of net] placed_refs [of "dim net" "nodes_attr net" k i]
    by (simp add: placement_ok_def)
qed

theorem topology_changes_by_append_and_clear_witness:
  "(case append
          [\<lparr>coef = NDArray [3] [0, 1, 1], activation = ''identity'', nodeid = - 1,
             n_outputs = 1, tag = None\<rparr>]
          \<lparr>dim = 2, nodes = [], nodes_attr = [], net_size = 2,
           output_to_node = Map.empty, input_to_node = Map.empty\<rparr> 0 [0, 1] of
      (e, h1, net1) \<Rightarrow>
          e = None \<and> reachable net1 \<and> nodes net1 = [0] \<and> length (nodes_attr net1) = 1
        \<and> inputs (nodes_attr net1 ! 0) = [0, 1] \<and> dim net1 = 2
        \<and> (case clear net1 of Inl _ \<Rightarrow> False | Inr net2 \<Rightarrow> nodes net2 = [] \<and> nodes_attr net2 = []))"
proof -
  let ?h0 = "[\<lparr>coef = NDArray [3] [0, 1, 1], activation = ''identity'', nodeid = - 1,
             n_outputs = 1, tag = None\<rparr>]"
  let ?g0 = "\<lparr>dim = 2, nodes = [], nodes_attr = [], net_size = 2,
           output_to_node = Map.empty, input_to_node = Map.empty\<rparr>"
  obtain e h1 net1 where ap: "append ?h0 ?g0 0 [0, 1] = (e, h1, net1)"
    by (metis prod_cases3)
  have e: "e = None" and g1: "inputs (nodes_attr net1 ! 0) = [0, 1]" "dim net1 = 2"
    using ap by (auto simp: unit_defs net_defs)
  have ap': "append ?h0 ?g0 0 [0, 1] = (None, h1, net1)" using ap e by simp
  have r0: "reachable ?g0"
    by (rule reachable.fresh [of "[]" 2 True "[]"]) (simp add: net_defs)
  have r1: "reachable net1"
    by (rule reachable.appended [OF r0 _ ap']) simp
  note t = topology_changes_by_append_and_clear [of ?h0 ?g0 0 "[0, 1]" h1 net1]
  have n1: "nodes net1 = [0]" "length (nodes_attr net1) = 1"
    using t ap' by simp_all
  obtain net2 where cl: "clear net1 = Inr net2"
    by (auto simp: clear_def update_members_def)
  have n2: "nodes net2 = [] \<and> nodes_attr net2 = []"
    using topology_changes_by_append_and_clear [of h1 net1 0 "[]" h1 net1 _ net2] cl by simp
  show ?thesis
    unfolding ap using e r1 n1 g1 cl n2 by simp
qed

text \<open>
  The claim as stated fails twice. \<open>clear\<close> removes a unit that was appended. And
  \<open>append\<close> takes any slot index: the unit appended below to a network over one input
  reads slot \<open>5\<close>, which is neither the external slot \<open>0\<close> nor written by any unit (the
  only unit writes slot \<open>1\<close>).
\<close>

theorem topology_counterexample:
  "(case append
          [\<lparr>coef = NDArray [3] [0, 1, 1], activation = ''identity'', nodeid = - 1,
             n_outputs = 1, tag = None\<rparr>]
          \<lparr>dim = 2, nodes = [], nodes_attr = [], net_size = 2,
           output_to_node = Map.empty, input_to_node = Map.empty\<rparr> 0 [0, 1] of
      (e, h1, net1) \<Rightarrow>
          e = None \<and> nodes net1 = [0]
        \<and> map_sum id nodes (clear net1) = Inr [])
   \<and> (case append
          [\<lparr>coef = NDArray [2] [0, 1], activation = ''identity'', nodeid = - 1,
             n_outputs = 1, tag = None\<rparr>]
          \<lparr>dim = 1, nodes = [], nodes_attr = [], net_size = 1,
           output_to_node = Map.empty, input_to_node = Map.empty\<rparr> 0 [5] of
      (e, h1, net1) \<Rightarrow>
          e = None \<and> dim net1 = 1 \<and> net_size net1 = 2
        \<and> map inputs (nodes_attr net1) = [[5]]
        \<and> map output_slot (nodes_attr net1) = [OutInt 1])"
  by (simp add: unit_defs net_defs)

section \<open>The registered derivatives\<close>

lemma sigmoid4_forward_derivative: "((\<lambda>x. expit (x * 4)) has_real_derivative (4 * expit 4 * (1 - expit 4))) (at 1)"
  unfolding expit_def
  by (auto intro!: derivative_eq_intros simp: field_simps power2_eq_square add_nonneg_eq_0_iff)

lemma expit_prod:
  fixes u :: real
  assumes "0 < u"
  shows "1 / (1 + u) * (1 - 1 / (1 + u)) = u / (1 + u)\<^sup>2"
  using assms by (simp add: field_simps power2_eq_square)

lemma sigmoid4_derivatives_differ: "4 * expit 1 * (1 - expit 1) \<noteq> 4 * expit 4 * (1 - expit 4)"
proof -
  define t :: real where "t = exp (- 1)"
  have t_pos: "0 < t" by (simp add: t_def)
  have "2 \<le> exp (1::real)" using exp_ge_add_one_self [of "1::real"] by simp
  then have t_le: "t \<le> 1 / 2" unfolding t_def exp_minus by (simp add: field_simps)
  have e4: "exp (- 4 :: real) = t ^ 4"
    using exp_of_nat_mult [of 4 "- 1 :: real"] by (simp add: t_def)
  have a: "expit 1 * (1 - expit 1) = t / (1 + t)\<^sup>2"
    using expit_prod [OF t_pos] by (simp add: expit_def t_def)
  have b: "expit 4 * (1 - expit 4) = t ^ 4 / (1 + t ^ 4)\<^sup>2"
    using expit_prod [of "t ^ 4"] t_pos by (simp add: expit_def e4)
  have p3: "t ^ 3 \<le> (1 / 2) ^ 3" using t_pos t_le by (intro power_mono) simp_all
  have p2: "(1 + t)\<^sup>2 \<le> (3 / 2)\<^sup>2" using t_pos t_le by (intro power_mono) simp_all
  have "t ^ 3 * (1 + t)\<^sup>2 \<le> (1 / 2) ^ 3 * (3 / 2)\<^sup>2"
    using p3 p2 t_pos by (intro mult_mono) simp_all
  also have "\<dots> < 1" by (simp add: power2_eq_square power3_eq_cube)
  also have "1 < (1 + t ^ 4)\<^sup>2" using t_pos by (intro one_less_power) simp_all
  finally have lt: "t ^ 3 * (1 + t)\<^sup>2 < (1 + t ^ 4)\<^sup>2" .
  have "t ^ 4 * (1 + t)\<^sup>2 = t * (t ^ 3 * (1 + t)\<^sup>2)" by (simp add: power4_eq_xxxx power3_eq_cube)
  also have "\<dots> < t * (1 + t ^ 4)\<^sup>2" using lt t_pos by simp
  finally have cross: "t ^ 4 * (1 + t)\<^sup>2 < t * (1 + t ^ 4)\<^sup>2" .
  have "t ^ 4 / (1 + t ^ 4)\<^sup>2 < t / (1 + t)\<^sup>2"
    using cross t_pos by (simp add: divide_less_eq less_divide_eq mult.commute pos_divide_less_eq frac_less_eq add_pos_pos)
  then show ?thesis using a b by simp
qed

lemma softmax4_forward_derivative:
  "((\<lambda>t. exp (t * 4) / (exp (t * 4) + exp (0 * 4))) has_real_derivative 1) (at (0::real))"
  by (auto intro!: derivative_eq_intros simp: field_simps power2_eq_square add_nonneg_eq_0_iff)

text \<open>
  C1. For \<^verbatim>\<open>'sigmoid4'\<close> the forward function is \<open>x \<mapsto> expit (4 x)\<close>, whose derivative at
  \<open>1\<close> is \<open>4 expit(4) (1 - expit(4))\<close>; the registered derivative returns
  \<open>4 expit(1) (1 - expit(1))\<close> there, a different number: it scales the result by four
  and leaves the argument unscaled. For \<^verbatim>\<open>'softmax4'\<close> the first output of the forward
  function along \<open>[t, 0]\<close> has derivative \<open>1\<close> at \<open>t = 0\<close>, and the registered derivative
  at \<open>[0, 0]\<close> has \<open>0\<close> in that entry: \<^verbatim>\<open>soft @ soft.T\<close> of a vector is the inner
  product, not the outer one.
\<close>

theorem registered_derivative_differs:
  "get_activation_function ''sigmoid4'' = Inr (\<lambda>x. Inr (map (\<lambda>v. expit (v * 4)) x))
   \<and> ((\<lambda>x. expit (x * 4)) has_real_derivative (4 * expit 4 * (1 - expit 4))) (at 1)
   \<and> map_sum id (\<lambda>g. g [1]) (get_activation_gradient_function ''sigmoid4'')
       = Inr (Inr (NDArray [1] [4 * expit 1 * (1 - expit 1)]))
   \<and> 4 * expit 1 * (1 - expit 1) \<noteq> 4 * expit 4 * (1 - expit 4)
   \<and> map_sum id (\<lambda>f. f [t, 0]) (get_activation_function ''softmax4'')
       = Inr (Inr [exp (t * 4) / (exp (t * 4) + exp (0 * 4)),
                   exp (0 * 4) / (exp (t * 4) + exp (0 * 4))])
   \<and> ((\<lambda>t. exp (t * 4) / (exp (t * 4) + exp (0 * 4))) has_real_derivative 1) (at (0::real))
   \<and> map_sum id (\<lambda>g. g [0, 0]) (get_activation_gradient_function ''softmax4'')
       = Inr (Inr (NDArray [2, 2] [0, - 2, - 2, 0]))"
proof (intro conjI)
  show "get_activation_function ''sigmoid4'' = Inr (\<lambda>x. Inr (map (\<lambda>v. expit (v * 4)) x))"
    by (simp add: get_activation_function_def)
  show "((\<lambda>x. expit (x * 4)) has_real_derivative (4 * expit 4 * (1 - expit 4))) (at 1)"
    by (rule sigmoid4_forward_derivative)
  show "map_sum id (\<lambda>g. g [1]) (get_activation_gradient_function ''sigmoid4'')
       = Inr (Inr (NDArray [1] [4 * expit 1 * (1 - expit 1)]))"
    by (simp add: get_activation_gradient_function_def vec_def dsigmoid_def Let_def)
  show "4 * expit 1 * (1 - expit 1) \<noteq> 4 * expit 4 * (1 - expit 4)"
    by (rule sigmoid4_derivatives_differ)
  show "map_sum id (\<lambda>f. f [t, 0]) (get_activation_function ''softmax4'')
       = Inr (Inr [exp (t * 4) / (exp (t * 4) + exp (0 * 4)),
                   exp (0 * 4) / (exp (t * 4) + exp (0 * 4))])"
    by (simp add: get_activation_function_def softmax_def scipy_softmax_def)
  show "((\<lambda>t. exp (t * 4) / (exp (t * 4) + exp (0 * 4))) has_real_derivative 1) (at (0::real))"
    by (rule softmax4_forward_derivative)
  show "map_sum id (\<lambda>g. g [0, 0]) (get_activation_gradient_function ''softmax4'')
       = Inr (Inr (NDArray [2, 2] [0, - 2, - 2, 0]))"
    by (simp add: get_activation_gradient_function_def dsoftmax_def scipy_softmax_def scale_nd_def
        Let_def upt_rec [of _ 2] upt_rec [of _ 1] numeral_2_eq_2)
qed

section \<open>The tree compiler\<close>












end
